theory Spec2Isabelle
  imports Main
begin

section \<open>Data model of \<^verbatim>\<open>utils/google_drive.py\<close>\<close>

text \<open>
  The module is one class, \<^verbatim>\<open>GoogleDriveManager\<close>, whose methods read and write four
  attributes of \<^verbatim>\<open>self\<close>, one file on disk (the pickled token) and a remote service.
  The embedding passes all of it explicitly in a record \<open>state\<close>. A method is a function
  from the state to an outcome (what it returns, or the exception it raises) and the
  state it leaves behind. The clock and the replies of the outside world (token endpoint,
  Drive API) are arguments. \<^verbatim>\<open>print\<close> calls are not modelled, and writing or
  removing an existing file is taken to succeed.

  The libraries the module calls are modelled by what they do to these data:
  \<^verbatim>\<open>google.oauth2.credentials\<close> (validity, refresh), \<^verbatim>\<open>pickle\<close>,
  \<^verbatim>\<open>googleapiclient.http.MediaIoBaseUpload\<close> (which seeks its stream when it is
  built) and the authorized transport of the handle that \<^verbatim>\<open>build\<close> returns (which
  refreshes a credential that is not valid before it sends a request).

  Names are the source's; the leading underscore of \<^verbatim>\<open>_save_credentials\<close> and
  \<^verbatim>\<open>_get_service\<close> is dropped, since an identifier cannot start with one.
\<close>

datatype error =
    ValueError string
  | FileNotFoundError string
  | EOFError string
  | UnpicklingError string
  | TransportError string
  | RefreshError string
  | HttpError string
  | UnsupportedOperation string
  | InvalidGrantError string
  | AttributeError string

datatype 'a outcome = Returns 'a | Raises error

text \<open>\<^verbatim>\<open>str(e)\<close>: the message of an exception.\<close>

fun str :: "error \<Rightarrow> string" where
  "str (ValueError m) = m"
| "str (FileNotFoundError m) = m"
| "str (EOFError m) = m"
| "str (UnpicklingError m) = m"
| "str (TransportError m) = m"
| "str (RefreshError m) = m"
| "str (HttpError m) = m"
| "str (UnsupportedOperation m) = m"
| "str (InvalidGrantError m) = m"
| "str (AttributeError m) = m"

text \<open>Truth value of an optional string in a Python condition: \<^verbatim>\<open>None\<close> and \<^verbatim>\<open>''\<close> are false.\<close>

fun truthy :: "string option \<Rightarrow> bool" where
  "truthy None = False"
| "truthy (Some v) = (v \<noteq> [])"

subsection \<open>Credentials (\<^verbatim>\<open>google.oauth2.credentials.Credentials\<close>)\<close>

text \<open>
  The library object, by the fields the module reads. Time is an integer (seconds).
  The library's \<^verbatim>\<open>expired\<close> turns true \<^verbatim>\<open>REFRESH_THRESHOLD\<close> (3 minutes 45 seconds)
  before the expiry time; a credential without expiry never expires. \<^verbatim>\<open>valid\<close> is:
  has an access token and is not expired.
\<close>

record credentials =
  token :: "string option"
  refresh_token :: "string option"
  expiry :: "int option"
  scopes :: "string list"

definition REFRESH_THRESHOLD :: int where
  "REFRESH_THRESHOLD = 225"

definition expiry_passed :: "int option \<Rightarrow> int \<Rightarrow> bool" where
  "expiry_passed exp now =
     (case exp of None \<Rightarrow> False | Some e \<Rightarrow> e - REFRESH_THRESHOLD \<le> now)"

definition expired :: "credentials \<Rightarrow> int \<Rightarrow> bool" where
  "expired c now = expiry_passed (expiry c) now"

definition valid :: "credentials \<Rightarrow> int \<Rightarrow> bool" where
  "valid c now = (token c \<noteq> None \<and> \<not> expired c now)"

text \<open>
  What the token endpoint answers to a refresh: a new access token with its expiry and,
  possibly, a new refresh token; a transport failure; or a rejection of the grant.
  \<^verbatim>\<open>creds.refresh(Request())\<close> raises \<^verbatim>\<open>RefreshError\<close> at once when the credential has
  no refresh token. Otherwise it asks the endpoint: it writes a successful answer into
  the credential object and raises \<^verbatim>\<open>TransportError\<close> or \<^verbatim>\<open>RefreshError\<close> on the other
  two, leaving the object as it was.
\<close>

datatype refresh_reply =
    Refreshed string "int option" "string option"
  | NetworkFailure string
  | Rejected string

fun refresh_grant :: "refresh_reply \<Rightarrow> credentials \<Rightarrow> credentials outcome" where
  "refresh_grant (Refreshed tok exp new_rt) c =
     Returns (c\<lparr>token := Some tok, expiry := exp,
               refresh_token := (case new_rt of None \<Rightarrow> refresh_token c | Some rt \<Rightarrow> Some rt)\<rparr>)"
| "refresh_grant (NetworkFailure m) c = Raises (TransportError m)"
| "refresh_grant (Rejected m) c = Raises (RefreshError m)"

definition refresh :: "refresh_reply \<Rightarrow> credentials \<Rightarrow> credentials outcome" where
  "refresh reply c =
     (case refresh_token c of
        None \<Rightarrow> Raises (RefreshError ''The credentials do not contain the necessary fields'')
      | Some rt \<Rightarrow> refresh_grant reply c)"

subsection \<open>Files\<close>

text \<open>
  A file is described by what reading it gives: a complete pickle stream of the object
  that was dumped (the module only ever dumps \<^verbatim>\<open>self.creds\<close>, a credential or
  \<^verbatim>\<open>None\<close>), the client-secret descriptor, or bytes that are no complete pickle stream
  (an empty or cut-off file, foreign content). \<^verbatim>\<open>pickle.load\<close> returns the object of
  a complete stream and raises on everything else.
\<close>

datatype file_content =
    Pickle "credentials option"
  | ClientSecrets
  | Unparsable string

fun pickle_load :: "file_content \<Rightarrow> credentials option outcome" where
  "pickle_load (Pickle obj) = Returns obj"
| "pickle_load ClientSecrets = Raises (UnpicklingError ''invalid load key'')"
| "pickle_load (Unparsable bs) =
     (if bs = [] then Raises (EOFError ''Ran out of input'')
      else Raises (UnpicklingError ''pickle data was truncated''))"

subsection \<open>Content streams, requests, replies\<close>

text \<open>
  A file-like object: its bytes, the current position, what it offers as \<^verbatim>\<open>seek\<close>
  (no such attribute, one that raises as on an unseekable stream, or a working one),
  and the calls made on it so far, in order: \<^verbatim>\<open>seek(n)\<close>, \<^verbatim>\<open>seek(0, os.SEEK_END)\<close>,
  \<^verbatim>\<open>tell()\<close>.
\<close>

datatype seek_support = NoSeek | SeekRaises | Seekable

datatype stream_call = SeekSet nat | SeekEnd | Tell

record stream =
  content :: string
  pos :: nat
  seek_attr :: seek_support
  calls :: "stream_call list"

record file_metadata =
  name :: string
  mimeType :: "string option"
  parents :: "string list option"

text \<open>
  \<^verbatim>\<open>MediaIoBaseUpload(fd, mimetype=..., resumable=...)\<close>. The constructor finds the
  size of the content with \<^verbatim>\<open>fd.seek(0, os.SEEK_END)\<close> and \<^verbatim>\<open>fd.tell()\<close>: it raises
  \<^verbatim>\<open>AttributeError\<close> on an object without \<^verbatim>\<open>seek\<close>, and lets the exception of a
  \<^verbatim>\<open>seek\<close> that raises pass.
\<close>

record media_upload =
  fd :: stream
  mimetype :: string
  resumable :: bool
  media_size :: nat

definition MediaIoBaseUpload :: "stream \<Rightarrow> string \<Rightarrow> bool \<Rightarrow> media_upload outcome" where
  "MediaIoBaseUpload file_content mt res =
     (case seek_attr file_content of
        NoSeek \<Rightarrow> Raises (AttributeError ''object has no attribute seek'')
      | SeekRaises \<Rightarrow> Raises (UnsupportedOperation ''seek'')
      | Seekable \<Rightarrow>
          Returns \<lparr>fd = file_content\<lparr>pos := length (content file_content),
                                       calls := calls file_content @ [SeekEnd, Tell]\<rparr>,
                   mimetype = mt, resumable = res,
                   media_size = length (content file_content)\<rparr>)"


text \<open>
  The two requests the module builds: \<^verbatim>\<open>files().create(body, media_body, fields)\<close> and
  \<^verbatim>\<open>files().list(pageSize, fields, q)\<close>.
\<close>

datatype request =
    FilesCreate file_metadata "media_upload option" string
  | FilesList int string string

text \<open>A reply is a dictionary of strings; a listing is a dictionary that may hold \<^verbatim>\<open>'files'\<close>.\<close>

type_synonym resource = "(string \<times> string) list"

text \<open>
  The remote service of the three file operations: what it answers to a request that
  was sent, a reply or an exception (an HTTP error, a broken connection).
\<close>

record remote =
  execute_create :: "request \<Rightarrow> resource outcome"
  execute_list :: "request \<Rightarrow> resource list option outcome"

subsection \<open>The state\<close>

text \<open>
  Credential objects live in a store, so that the handle built by \<^verbatim>\<open>build(...,
  credentials=self.creds)\<close> shares its credential object with \<^verbatim>\<open>self.creds\<close> until
  \<^verbatim>\<open>self.creds\<close> is bound to another object. \<open>net_log\<close> records every request sent
  to the remote service, with the credential it was sent with.
\<close>

type_synonym ref = nat

record drive_service =
  svc_creds :: ref

record state =
  credentials_path :: string
  token_path :: string
  creds :: "ref option"
  service :: "drive_service option"
  files :: "string \<Rightarrow> file_content option"
  heap :: "ref \<Rightarrow> credentials"
  next_ref :: ref
  net_log :: "(credentials \<times> request) list"

text \<open>A new credential object (as \<^verbatim>\<open>pickle.load\<close> and \<^verbatim>\<open>flow.credentials\<close> create one).\<close>

definition alloc :: "credentials \<Rightarrow> state \<Rightarrow> ref \<times> state" where
  "alloc c s = (next_ref s, s\<lparr>heap := (heap s)(next_ref s := c), next_ref := Suc (next_ref s)\<rparr>)"

section \<open>The methods\<close>

definition is_authenticated :: "int \<Rightarrow> state \<Rightarrow> bool" where
  "is_authenticated now s =
     (case creds s of None \<Rightarrow> False | Some r \<Rightarrow> valid (heap s r) now)"

text \<open>
  \<^verbatim>\<open>with open(self.token_path, 'wb') as token: pickle.dump(self.creds, token)\<close>.
  Opening for writing truncates the file in place (or creates it empty); the dump then
  writes the stream into it.
\<close>

definition open_wb :: "string \<Rightarrow> state \<Rightarrow> state" where
  "open_wb path s = s\<lparr>files := (files s)(path \<mapsto> Unparsable [])\<rparr>"

definition pickle_dump :: "credentials option \<Rightarrow> string \<Rightarrow> state \<Rightarrow> state" where
  "pickle_dump obj path s = s\<lparr>files := (files s)(path \<mapsto> Pickle obj)\<rparr>"

definition save_credentials :: "state \<Rightarrow> state" where
  "save_credentials s =
     (let s1 = open_wb (token_path s) s
      in pickle_dump (map_option (heap s1) (creds s1)) (token_path s1) s1)"

text \<open>
  A save cut short: the file has been opened, and \<open>written\<close>, the bytes of the stream
  that reached the file before the interruption (none, when it falls right after the
  open), are all it holds. A pickle stream ends with its stop code, so a stream cut
  before its end is not a complete one.
\<close>

definition save_credentials_interrupted :: "string \<Rightarrow> state \<Rightarrow> state" where
  "save_credentials_interrupted written s =
     (let s1 = open_wb (token_path s) s
      in s1\<lparr>files := (files s1)(token_path s1 \<mapsto> Unparsable written)\<rparr>)"

text \<open>
  \<^verbatim>\<open>load_credentials\<close>, first part (``if the token file exists, unpickle it into
  \<^verbatim>\<open>self.creds\<close>''). An exception of \<^verbatim>\<open>pickle.load\<close> is not caught.
\<close>

definition load_credentials_read :: "state \<Rightarrow> state outcome" where
  "load_credentials_read s =
     (case files s (token_path s) of
        None \<Rightarrow> Returns s
      | Some f \<Rightarrow>
          (case pickle_load f of
             Raises e \<Rightarrow> Raises e
           | Returns None \<Rightarrow> Returns (s\<lparr>creds := None\<rparr>)
           | Returns (Some c) \<Rightarrow>
               (case alloc c s of (r, s1) \<Rightarrow> Returns (s1\<lparr>creds := Some r\<rparr>))))"

text \<open>
  Second part (``refresh if expired''): the refresh mutates the credential object in
  place and the result is saved; any exception drops \<^verbatim>\<open>self.creds\<close>.
\<close>

definition load_credentials_refresh ::
  "(credentials \<Rightarrow> refresh_reply) \<Rightarrow> int \<Rightarrow> state \<Rightarrow> state" where
  "load_credentials_refresh token_endpoint now s =
     (case creds s of
        None \<Rightarrow> s
      | Some r \<Rightarrow>
          (if expired (heap s r) now \<and> truthy (refresh_token (heap s r)) then
             (case refresh (token_endpoint (heap s r)) (heap s r) of
                Returns c' \<Rightarrow> save_credentials (s\<lparr>heap := (heap s)(r := c')\<rparr>)
              | Raises e \<Rightarrow> s\<lparr>creds := None\<rparr>)
           else s))"

definition load_credentials ::
  "(credentials \<Rightarrow> refresh_reply) \<Rightarrow> int \<Rightarrow> state \<Rightarrow> bool outcome \<times> state" where
  "load_credentials token_endpoint now s =
     (case load_credentials_read s of
        Raises e \<Rightarrow> (Raises e, s)
      | Returns s1 \<Rightarrow>
          (let s2 = load_credentials_refresh token_endpoint now s1
           in (Returns (is_authenticated now s2), s2)))"

text \<open>
  \<^verbatim>\<open>Flow.from_client_secrets_file\<close> reads the client-secret descriptor and raises when
  it is missing or is no descriptor; \<^verbatim>\<open>flow.fetch_token(code=code)\<close> is the exchange
  with the token endpoint, an argument here: the credential it issues, or the exception
  of a transport or protocol error.
\<close>

definition from_client_secrets_file :: "string \<Rightarrow> state \<Rightarrow> unit outcome" where
  "from_client_secrets_file path s =
     (case files s path of
        None \<Rightarrow> Raises (FileNotFoundError path)
      | Some ClientSecrets \<Rightarrow> Returns ()
      | Some _ \<Rightarrow> Raises (ValueError ''Client secrets must be for a web or installed app.''))"

definition authenticate_from_code ::
  "(string \<Rightarrow> string \<Rightarrow> string option \<Rightarrow> credentials outcome) \<Rightarrow>
   string \<Rightarrow> string \<Rightarrow> string option \<Rightarrow> state \<Rightarrow> bool outcome \<times> state" where
  "authenticate_from_code fetch_token code redirect_uri oauth_state s =
     (case from_client_secrets_file (credentials_path s) s of
        Raises e \<Rightarrow> (Returns False, s)
      | Returns flow \<Rightarrow>
          (case fetch_token code redirect_uri oauth_state of
             Raises e \<Rightarrow> (Returns False, s)
           | Returns c \<Rightarrow>
               (case alloc c s of
                  (r, s1) \<Rightarrow> (Returns True, save_credentials (s1\<lparr>creds := Some r\<rparr>)))))"

text \<open>\<^verbatim>\<open>os.remove\<close> raises on a path that does not exist.\<close>

definition os_remove :: "string \<Rightarrow> state \<Rightarrow> unit outcome \<times> state" where
  "os_remove path s =
     (case files s path of
        None \<Rightarrow> (Raises (FileNotFoundError path), s)
      | Some _ \<Rightarrow> (Returns (), s\<lparr>files := (files s)(path := None)\<rparr>))"

definition revoke_authentication :: "state \<Rightarrow> unit outcome \<times> state" where
  "revoke_authentication s =
     (case (if files s (token_path s) \<noteq> None then os_remove (token_path s) s
            else (Returns (), s)) of
        (Raises e, s1) \<Rightarrow> (Raises e, s1)
      | (Returns _, s1) \<Rightarrow> (Returns (), s1\<lparr>creds := None, service := None\<rparr>))"

definition not_authenticated :: error where
  "not_authenticated = ValueError ''Not authenticated. Please authenticate first.''"

definition get_service :: "int \<Rightarrow> state \<Rightarrow> drive_service outcome \<times> state" where
  "get_service now s =
     (case service s of
        Some svc \<Rightarrow> (Returns svc, s)
      | None \<Rightarrow>
          (if \<not> is_authenticated now s then (Raises not_authenticated, s)
           else (case creds s of
                   None \<Rightarrow> (Raises not_authenticated, s)
                 | Some r \<Rightarrow> (Returns \<lparr>svc_creds = r\<rparr>, s\<lparr>service := Some \<lparr>svc_creds = r\<rparr>\<rparr>))))"

text \<open>
  Sending a request through a handle: the log gains the request, with the credential
  the handle holds.
\<close>

definition submit :: "drive_service \<Rightarrow> request \<Rightarrow> state \<Rightarrow> state" where
  "submit svc req s = s\<lparr>net_log := net_log s @ [(heap s (svc_creds svc), req)]\<rparr>"

text \<open>
  The authorized transport of a handle, on \<^verbatim>\<open>execute()\<close>: before it sends, it refreshes
  the handle's credential when that is not valid (\<^verbatim>\<open>before_request\<close>). The refresh
  mutates the credential object, which \<^verbatim>\<open>self.creds\<close> may share, and is not saved to
  the token file; when it raises, nothing is sent. A second attempt of the transport
  after a reply of the service is part of that reply, not a request of its own here.
\<close>

definition authorized_send ::
  "(credentials \<Rightarrow> refresh_reply) \<Rightarrow> int \<Rightarrow> drive_service \<Rightarrow> request \<Rightarrow> state \<Rightarrow>
   unit outcome \<times> state" where
  "authorized_send token_endpoint now svc req s =
     (let c = heap s (svc_creds svc) in
      if valid c now then (Returns (), submit svc req s)
      else (case refresh (token_endpoint c) c of
              Raises e \<Rightarrow> (Raises e, s)
            | Returns c' \<Rightarrow>
                (Returns (), submit svc req (s\<lparr>heap := (heap s)(svc_creds svc := c')\<rparr>))))"

text \<open>\<^verbatim>\<open>if hasattr(file_content, 'seek'): file_content.seek(0)\<close>\<close>

definition rewind :: "stream \<Rightarrow> stream outcome" where
  "rewind file_content =
     (case seek_attr file_content of
        NoSeek \<Rightarrow> Returns file_content
      | SeekRaises \<Rightarrow> Raises (UnsupportedOperation ''seek'')
      | Seekable \<Rightarrow>
          Returns (file_content\<lparr>pos := 0, calls := calls file_content @ [SeekSet 0]\<rparr>))"

datatype upload_result =
    UploadSuccess "string option" "string option" "string option"
  | UploadFailure string

text \<open>
  The parameter \<open>mimetype\<close> is \<open>None\<close> when the caller leaves the argument out, and the
  default of the signature, \<^verbatim>\<open>'application/pdf'\<close>, applies.
\<close>

definition upload_file ::
  "(credentials \<Rightarrow> refresh_reply) \<Rightarrow> remote \<Rightarrow> int \<Rightarrow>
   stream \<Rightarrow> string \<Rightarrow> string option \<Rightarrow> string option \<Rightarrow> state \<Rightarrow>
   upload_result outcome \<times> state" where
  "upload_file token_endpoint rem now file_content filename mimetype_arg folder_id s =
     (let mt = (case mimetype_arg of None \<Rightarrow> ''application/pdf'' | Some m \<Rightarrow> m) in
      case get_service now s of
        (Raises e, s1) \<Rightarrow> (Returns (UploadFailure (str e)), s1)
      | (Returns svc, s1) \<Rightarrow>
          (let file_metadata =
                 \<lparr>name = filename, mimeType = None,
                  parents = (if truthy folder_id then map_option (\<lambda>f. [f]) folder_id else None)\<rparr>
           in case rewind file_content of
                Raises e \<Rightarrow> (Returns (UploadFailure (str e)), s1)
              | Returns fc \<Rightarrow>
                  (case MediaIoBaseUpload fc mt True of
                     Raises e \<Rightarrow> (Returns (UploadFailure (str e)), s1)
                   | Returns media \<Rightarrow>
                       (let req = FilesCreate file_metadata (Some media)
                                    ''id, name, webViewLink''
                        in case authorized_send token_endpoint now svc req s1 of
                             (Raises e, s2) \<Rightarrow> (Returns (UploadFailure (str e)), s2)
                           | (Returns _, s2) \<Rightarrow>
                               (case execute_create rem req of
                                  Raises e \<Rightarrow> (Returns (UploadFailure (str e)), s2)
                                | Returns file \<Rightarrow>
                                    (Returns (UploadSuccess (map_of file ''id'')
                                                (map_of file ''name'')
                                                (map_of file ''webViewLink'')), s2))))))"

definition create_folder ::
  "(credentials \<Rightarrow> refresh_reply) \<Rightarrow> remote \<Rightarrow> int \<Rightarrow>
   string \<Rightarrow> string option \<Rightarrow> state \<Rightarrow> string option outcome \<times> state" where
  "create_folder token_endpoint rem now folder_name parent_folder_id s =
     (case get_service now s of
        (Raises e, s1) \<Rightarrow> (Returns None, s1)
      | (Returns svc, s1) \<Rightarrow>
          (let file_metadata =
                 \<lparr>name = folder_name, mimeType = Some ''application/vnd.google-apps.folder'',
                  parents = (if truthy parent_folder_id
                             then map_option (\<lambda>f. [f]) parent_folder_id else None)\<rparr>;
               req = FilesCreate file_metadata None ''id''
           in case authorized_send token_endpoint now svc req s1 of
                (Raises e, s2) \<Rightarrow> (Returns None, s2)
              | (Returns _, s2) \<Rightarrow>
                  (case execute_create rem req of
                     Raises e \<Rightarrow> (Returns None, s2)
                   | Returns folder \<Rightarrow> (Returns (map_of folder ''id''), s2))))"

definition list_files ::
  "(credentials \<Rightarrow> refresh_reply) \<Rightarrow> remote \<Rightarrow> int \<Rightarrow>
   int \<Rightarrow> string option \<Rightarrow> state \<Rightarrow> resource list outcome \<times> state" where
  "list_files token_endpoint rem now page_size folder_id s =
     (case get_service now s of
        (Raises e, s1) \<Rightarrow> (Returns [], s1)
      | (Returns svc, s1) \<Rightarrow>
          (let query = (case folder_id of
                          None \<Rightarrow> []
                        | Some f \<Rightarrow> if f = [] then []
                                    else [CHR 0x27] @ f @ [CHR 0x27] @ '' in parents'');
               req = FilesList page_size
                       ''files(id, name, mimeType, createdTime, webViewLink)'' query
           in case authorized_send token_endpoint now svc req s1 of
                (Raises e, s2) \<Rightarrow> (Returns [], s2)
              | (Returns _, s2) \<Rightarrow>
                  (case execute_list rem req of
                     Raises e \<Rightarrow> (Returns [], s2)
                   | Returns results \<Rightarrow>
                       (Returns (case results of None \<Rightarrow> [] | Some fs \<Rightarrow> fs), s2))))"

text \<open>
  \<^verbatim>\<open>__init__\<close>: the two paths default to the class constants, nothing is loaded. The
  disk is an argument.
\<close>

definition no_credentials :: credentials where
  "no_credentials = \<lparr>token = None, refresh_token = None, expiry = None, scopes = []\<rparr>"

definition init :: "string option \<Rightarrow> string option \<Rightarrow> (string \<Rightarrow> file_content option) \<Rightarrow> state" where
  "init credentials_path_arg token_path_arg disk =
     \<lparr>credentials_path =
        (case credentials_path_arg of
           None \<Rightarrow> ''credentials.json''
         | Some p \<Rightarrow> if p = [] then ''credentials.json'' else p),
      token_path =
        (case token_path_arg of
           None \<Rightarrow> ''token.pickle''
         | Some p \<Rightarrow> if p = [] then ''token.pickle'' else p),
      creds = None, service = None, files = disk,
      heap = (\<lambda>_. no_credentials), next_ref = 0, net_log = []\<rparr>"

section \<open>Observations used in the statements\<close>

text \<open>The requests a call added to the log, given the states before and after it.\<close>

definition new_requests :: "state \<Rightarrow> state \<Rightarrow> (credentials \<times> request) list" where
  "new_requests s s' = drop (length (net_log s)) (net_log s')"

text \<open>Every request of a call was sent with a credential that was valid at that time.\<close>

definition requests_validated :: "int \<Rightarrow> state \<Rightarrow> state \<Rightarrow> bool" where
  "requests_validated now s s' = list_all (\<lambda>(c, req). valid c now) (new_requests s s')"

text \<open>
  The credentials a request goes out with through a handle that holds \<open>c\<close>: \<open>c\<close> itself
  when valid, the renewed one when the refresh succeeds, none when it fails.
\<close>

definition sent_with :: "(credentials \<Rightarrow> refresh_reply) \<Rightarrow> int \<Rightarrow> credentials \<Rightarrow> credentials list" where
  "sent_with token_endpoint now c =
     (if valid c now then [c]
      else (case refresh (token_endpoint c) c of Raises e \<Rightarrow> [] | Returns c' \<Rightarrow> [c']))"

text \<open>The credential value \<^verbatim>\<open>self.creds\<close> currently denotes.\<close>

definition current_creds :: "state \<Rightarrow> credentials option" where
  "current_creds s = map_option (heap s) (creds s)"

text \<open>
  The media of an upload request; the calls its stream has seen when the request is
  sent; and the bytes a resumable upload sends for it, from progress 0.
\<close>

fun media_of :: "request \<Rightarrow> media_upload option" where
  "media_of (FilesCreate body media flds) = media"
| "media_of (FilesList page_size flds q) = None"



definition upload_mimetype :: "request \<Rightarrow> string option" where
  "upload_mimetype req = map_option mimetype (media_of req)"

text \<open>The spec's ``generic binary type'' of an upload without a stated type.\<close>

definition generic_binary_mimetype :: string where
  "generic_binary_mimetype = ''application/octet-stream''"

section \<open>A concrete installation\<close>

text \<open>
  A disk holding only the client-secret descriptor, a token endpoint that issues
  \<open>ex_creds\<close> (expiring at time 3600) for the code \<^verbatim>\<open>abc123\<close>, and a remote service that
  accepts every request.
\<close>

definition ex_creds :: credentials where
  "ex_creds = \<lparr>token = Some ''ya29.a0'', refresh_token = Some ''1//0g'',
               expiry = Some 3600, scopes = [''https://www.googleapis.com/auth/drive.file'']\<rparr>"

definition ex_disk :: "string \<Rightarrow> file_content option" where
  "ex_disk = (\<lambda>_. None)(''credentials.json'' \<mapsto> ClientSecrets)"

definition ex_fetch_token :: "string \<Rightarrow> string \<Rightarrow> string option \<Rightarrow> credentials outcome" where
  "ex_fetch_token code redirect_uri oauth_state =
     (if code = ''abc123'' then Returns ex_creds
      else if code = [] then Raises (TransportError ''connection reset'')
      else Raises (InvalidGrantError ''invalid_grant''))"

definition ex_remote :: remote where
  "ex_remote =
     \<lparr>execute_create = (\<lambda>req. Returns [(''id'', ''f1''), (''name'', ''report.pdf''),
                                        (''webViewLink'', ''https://drive/f1'')]),
      execute_list = (\<lambda>req. Returns None)\<rparr>"

definition ex_stream :: stream where
  "ex_stream = \<lparr>content = ''%PDF-1.4'', pos = 3, seek_attr = Seekable, calls = []\<rparr>"

text \<open>A fresh manager, and the same after a successful exchange of the code.\<close>

definition ex_fresh :: state where
  "ex_fresh = init None None ex_disk"

definition ex_authenticated :: state where
  "ex_authenticated =
     snd (authenticate_from_code ex_fetch_token ''abc123'' ''https://app/callback'' None ex_fresh)"

text \<open>
  The manager whose token file is empty (a record that cannot be unpickled), and the
  authenticated manager whose token file was deleted behind its back.
\<close>

definition ex_corrupt :: state where
  "ex_corrupt = init None None (ex_disk(''token.pickle'' \<mapsto> Unparsable []))"

definition ex_record_deleted :: state where
  "ex_record_deleted = ex_authenticated\<lparr>files := ex_disk\<rparr>"

text \<open>Token endpoints for a refresh: unreachable, rejecting, renewing.\<close>

definition ex_endpoint_down :: "credentials \<Rightarrow> refresh_reply" where
  "ex_endpoint_down c = NetworkFailure ''timed out''"

definition ex_endpoint_rejects :: "credentials \<Rightarrow> refresh_reply" where
  "ex_endpoint_rejects c = Rejected ''invalid_grant''"

definition ex_endpoint_renews :: "credentials \<Rightarrow> refresh_reply" where
  "ex_endpoint_renews c = Refreshed ''ya29.b1'' (Some 8600) None"

text \<open>The manager after a first upload at time 10, which built and cached the handle.\<close>

definition ex_with_handle :: state where
  "ex_with_handle =
     snd (upload_file ex_endpoint_down ex_remote 10 ex_stream ''report.pdf'' None None
            ex_authenticated)"

text \<open>A content object without \<^verbatim>\<open>seek\<close>, three bytes of which have been read.\<close>

definition ex_pipe :: stream where
  "ex_pipe = \<lparr>content = ''%PDF-1.4'', pos = 3, seek_attr = NoSeek, calls = []\<rparr>"

section \<open>Basic facts\<close>

lemmas ex_defs =
  ex_fresh_def ex_authenticated_def ex_with_handle_def init_def ex_disk_def
  ex_fetch_token_def ex_remote_def ex_stream_def ex_creds_def ex_corrupt_def
  ex_record_deleted_def ex_endpoint_down_def ex_endpoint_rejects_def
  ex_endpoint_renews_def ex_pipe_def

lemmas op_defs =
  authenticate_from_code_def from_client_secrets_file_def alloc_def save_credentials_def
  open_wb_def pickle_dump_def upload_file_def get_service_def is_authenticated_def
  valid_def expired_def expiry_passed_def REFRESH_THRESHOLD_def refresh_def
  submit_def authorized_send_def rewind_def MediaIoBaseUpload_def
  new_requests_def requests_validated_def
  load_credentials_def load_credentials_read_def load_credentials_refresh_def
  save_credentials_interrupted_def Let_def

lemma get_service_cached:
  "service s = Some svc \<Longrightarrow> get_service now s = (Returns svc, s)"
  by (simp add: get_service_def)

lemma get_service_unauthenticated:
  "service s = None \<Longrightarrow> \<not> is_authenticated now s \<Longrightarrow>
   get_service now s = (Raises not_authenticated, s)"
  by (simp add: get_service_def)

lemma get_service_net_log:
  "get_service now s = (res, s1) \<Longrightarrow> net_log s1 = net_log s"
  by (auto simp: get_service_def split: option.splits if_splits)

lemma token_path_save_credentials:
  "token_path (save_credentials s) = token_path s"
  by (simp add: save_credentials_def open_wb_def pickle_dump_def Let_def)

lemma files_save_credentials:
  "files (save_credentials s) = (files s)(token_path s \<mapsto> Pickle (current_creds s))"
  by (simp add: save_credentials_def open_wb_def pickle_dump_def Let_def current_creds_def)

lemma load_credentials_refresh_failure:
  assumes "creds s = Some r"
    and "expired (heap s r) now" and "truthy (refresh_token (heap s r))"
    and "refresh (token_endpoint (heap s r)) (heap s r) = Raises e"
  shows "load_credentials_refresh token_endpoint now s = s\<lparr>creds := None\<rparr>"
  using assms by (simp add: load_credentials_refresh_def)

lemma ex_authenticated_get_service:
  "get_service 10 ex_authenticated =
     (Returns \<lparr>svc_creds = 0\<rparr>, ex_authenticated\<lparr>service := Some \<lparr>svc_creds = 0\<rparr>\<rparr>)"
  by (simp add: ex_defs op_defs)

text \<open>What the authorized transport sends, case by case.\<close>

lemma authorized_send_valid:
  "valid (heap s (svc_creds svc)) now \<Longrightarrow>
   authorized_send token_endpoint now svc req s = (Returns (), submit svc req s)"
  by (simp add: authorized_send_def)

lemma authorized_send_refresh_fails:
  "\<not> valid (heap s (svc_creds svc)) now \<Longrightarrow>
   refresh (token_endpoint (heap s (svc_creds svc))) (heap s (svc_creds svc)) = Raises e \<Longrightarrow>
   authorized_send token_endpoint now svc req s = (Raises e, s)"
  by (simp add: authorized_send_def)

lemma authorized_send_refreshes:
  "\<not> valid (heap s (svc_creds svc)) now \<Longrightarrow>
   refresh (token_endpoint (heap s (svc_creds svc))) (heap s (svc_creds svc)) = Returns c' \<Longrightarrow>
   authorized_send token_endpoint now svc req s =
     (Returns (), submit svc req (s\<lparr>heap := (heap s)(svc_creds svc := c')\<rparr>))"
  by (simp add: authorized_send_def)

lemma authorized_send_sent_with:
  "authorized_send token_endpoint now svc req s = (res, s') \<Longrightarrow>
   net_log s' =
     net_log s @ map (\<lambda>c. (c, req)) (sent_with token_endpoint now (heap s (svc_creds svc)))"
  by (auto simp: authorized_send_def sent_with_def submit_def Let_def
      split: if_splits outcome.splits)

lemma refresh_Returns:
  "refresh reply c = Returns c' \<Longrightarrow>
   \<exists>tok exp new_rt. reply = Refreshed tok exp new_rt \<and> token c' = Some tok \<and> expiry c' = exp"
  by (cases reply) (auto simp: refresh_def split: option.splits)

lemma authorized_send_log:
  "net_log (snd (authorized_send token_endpoint now svc req s)) = net_log s \<or>
   (\<exists>c. net_log (snd (authorized_send token_endpoint now svc req s)) = net_log s @ [(c, req)])"
proof (cases "valid (heap s (svc_creds svc)) now")
  case True
  then show ?thesis
    by (simp add: authorized_send_valid submit_def)
next
  case False
  show ?thesis
  proof (cases "refresh (token_endpoint (heap s (svc_creds svc))) (heap s (svc_creds svc))")
    case (Raises e)
    with False show ?thesis
      by (simp add: authorized_send_refresh_fails)
  next
    case (Returns c')
    with False show ?thesis
      by (simp add: authorized_send_refreshes submit_def)
  qed
qed

lemma authorized_send_validated:
  assumes "\<forall>c tok exp rt. token_endpoint c = Refreshed tok exp rt \<longrightarrow> \<not> expiry_passed exp now"
  shows "\<exists>es. net_log (snd (authorized_send token_endpoint now svc req s)) = net_log s @ es \<and>
              list_all (\<lambda>(c, r). valid c now) es"
proof (cases "valid (heap s (svc_creds svc)) now")
  case True
  then show ?thesis
    by (simp add: authorized_send_valid submit_def)
next
  case False
  show ?thesis
  proof (cases "refresh (token_endpoint (heap s (svc_creds svc))) (heap s (svc_creds svc))")
    case (Raises e)
    with False show ?thesis
      by (simp add: authorized_send_refresh_fails)
  next
    case (Returns c')
    from refresh_Returns [OF Returns] assms have "valid c' now"
      by (auto simp: valid_def expired_def)
    with False Returns show ?thesis
      by (simp add: authorized_send_refreshes submit_def)
  qed
qed

text \<open>The one request an upload can send, and when it sends none.\<close>

lemma upload_file_seekable_state:
  assumes "seek_attr fc = Seekable" and "get_service now s = (Returns svc, s1)"
  shows "snd (upload_file token_endpoint rem now fc filename mt folder s) =
         snd (authorized_send token_endpoint now svc
                (FilesCreate
                   \<lparr>name = filename, mimeType = None,
                    parents = (if truthy folder then map_option (\<lambda>f. [f]) folder else None)\<rparr>
                   (Some \<lparr>fd = fc\<lparr>pos := length (content fc),
                                  calls := calls fc @ [SeekSet 0, SeekEnd, Tell]\<rparr>,
                          mimetype = (case mt of None \<Rightarrow> ''application/pdf'' | Some m \<Rightarrow> m),
                          resumable = True, media_size = length (content fc)\<rparr>)
                   ''id, name, webViewLink'')
                s1)"
  using assms
  by (simp add: upload_file_def rewind_def MediaIoBaseUpload_def Let_def
      split: outcome.splits prod.splits)

lemma upload_file_not_seekable:
  assumes "seek_attr fc \<noteq> Seekable"
  shows "snd (upload_file token_endpoint rem now fc filename mt folder s) =
           snd (get_service now s) \<and>
         (\<exists>msg. fst (upload_file token_endpoint rem now fc filename mt folder s) =
                  Returns (UploadFailure msg))"
proof -
  obtain res s1 where g: "get_service now s = (res, s1)"
    by (cases "get_service now s")
  show ?thesis
  proof (cases res)
    case (Raises e)
    with g show ?thesis
      by (simp add: upload_file_def)
  next
    case (Returns svc)
    with g assms show ?thesis
      by (cases "seek_attr fc")
        (simp_all add: upload_file_def rewind_def MediaIoBaseUpload_def)
  qed
qed

text \<open>
  The state an operation leaves is the one \<open>get_service\<close> left, or the one the transport
  left for the request of the call.
\<close>

lemma upload_file_state:
  assumes "get_service now s = (res, s1)"
  shows "snd (upload_file token_endpoint rem now fc filename mt folder s) = s1 \<or>
         (\<exists>svc req. snd (upload_file token_endpoint rem now fc filename mt folder s) =
                      snd (authorized_send token_endpoint now svc req s1))"
proof (cases "seek_attr fc = Seekable")
  case False
  from upload_file_not_seekable [OF False] assms show ?thesis
    by simp
next
  case True
  show ?thesis
  proof (cases res)
    case (Raises e)
    with assms show ?thesis
      by (simp add: upload_file_def)
  next
    case (Returns svc)
    with assms have "get_service now s = (Returns svc, s1)"
      by simp
    from upload_file_seekable_state [OF True this] show ?thesis
      by blast
  qed
qed

lemma create_folder_state:
  assumes "get_service now s = (res, s1)"
  shows "snd (create_folder token_endpoint rem now folder_name parent s) = s1 \<or>
         (\<exists>svc req. snd (create_folder token_endpoint rem now folder_name parent s) =
                      snd (authorized_send token_endpoint now svc req s1))"
proof (cases res)
  case (Raises e)
  with assms show ?thesis
    by (simp add: create_folder_def)
next
  case (Returns svc)
  let ?req = "FilesCreate
                \<lparr>name = folder_name, mimeType = Some ''application/vnd.google-apps.folder'',
                 parents = (if truthy parent then map_option (\<lambda>f. [f]) parent else None)\<rparr>
                None ''id''"
  have "snd (create_folder token_endpoint rem now folder_name parent s) =
        snd (authorized_send token_endpoint now svc ?req s1)"
    using assms Returns
    by (simp add: create_folder_def Let_def split: outcome.splits prod.splits)
  then show ?thesis
    by blast
qed

lemma list_files_state:
  assumes "get_service now s = (res, s1)"
  shows "snd (list_files token_endpoint rem now page_size folder s) = s1 \<or>
         (\<exists>svc req. snd (list_files token_endpoint rem now page_size folder s) =
                      snd (authorized_send token_endpoint now svc req s1))"
proof (cases res)
  case (Raises e)
  with assms show ?thesis
    by (simp add: list_files_def)
next
  case (Returns svc)
  let ?req = "FilesList page_size ''files(id, name, mimeType, createdTime, webViewLink)''
                (case folder of
                   None \<Rightarrow> []
                 | Some f \<Rightarrow> if f = [] then []
                             else [CHR 0x27] @ f @ [CHR 0x27] @ '' in parents'')"
  have "snd (list_files token_endpoint rem now page_size folder s) =
        snd (authorized_send token_endpoint now svc ?req s1)"
    using assms Returns
    by (simp add: list_files_def Let_def split: outcome.splits prod.splits)
  then show ?thesis
    by blast
qed

lemma create_folder_sent:
  assumes "get_service now s = (Returns svc, s1)"
  shows "map fst (new_requests s1
                    (snd (create_folder token_endpoint rem now folder_name parent s))) =
         sent_with token_endpoint now (heap s1 (svc_creds svc))"
proof -
  let ?req = "FilesCreate
                \<lparr>name = folder_name, mimeType = Some ''application/vnd.google-apps.folder'',
                 parents = (if truthy parent then map_option (\<lambda>f. [f]) parent else None)\<rparr>
                None ''id''"
  obtain r s2 where a: "authorized_send token_endpoint now svc ?req s1 = (r, s2)"
    by (cases "authorized_send token_endpoint now svc ?req s1")
  have "snd (create_folder token_endpoint rem now folder_name parent s) = s2"
    using assms a
    by (cases r) (simp_all add: create_folder_def Let_def split: outcome.splits)
  with authorized_send_sent_with [OF a] show ?thesis
    by (simp add: new_requests_def comp_def)
qed

lemma list_files_sent:
  assumes "get_service now s = (Returns svc, s1)"
  shows "map fst (new_requests s1
                    (snd (list_files token_endpoint rem now page_size folder s))) =
         sent_with token_endpoint now (heap s1 (svc_creds svc))"
proof -
  let ?req = "FilesList page_size ''files(id, name, mimeType, createdTime, webViewLink)''
                (case folder of
                   None \<Rightarrow> []
                 | Some f \<Rightarrow> if f = [] then []
                             else [CHR 0x27] @ f @ [CHR 0x27] @ '' in parents'')"
  obtain r s2 where a: "authorized_send token_endpoint now svc ?req s1 = (r, s2)"
    by (cases "authorized_send token_endpoint now svc ?req s1")
  have "snd (list_files token_endpoint rem now page_size folder s) = s2"
    using assms a
    by (cases r) (simp_all add: list_files_def Let_def split: outcome.splits)
  with authorized_send_sent_with [OF a] show ?thesis
    by (simp add: new_requests_def comp_def)
qed

lemma requests_validated_from_state:
  assumes san: "\<forall>c tok exp rt. token_endpoint c = Refreshed tok exp rt \<longrightarrow> \<not> expiry_passed exp now"
    and g: "get_service now s = (res, s1)"
    and s': "s' = s1 \<or> (\<exists>svc req. s' = snd (authorized_send token_endpoint now svc req s1))"
  shows "requests_validated now s s'"
proof -
  from g have l: "net_log s1 = net_log s"
    by (rule get_service_net_log)
  from s' show ?thesis
  proof
    assume "s' = s1"
    with l show ?thesis
      by (simp add: requests_validated_def new_requests_def)
  next
    assume "\<exists>svc req. s' = snd (authorized_send token_endpoint now svc req s1)"
    then obtain svc req where e: "s' = snd (authorized_send token_endpoint now svc req s1)"
      by blast
    from authorized_send_validated [OF san, of svc req s1] obtain es where
      "net_log (snd (authorized_send token_endpoint now svc req s1)) = net_log s1 @ es"
      "list_all (\<lambda>(c, r). valid c now) es"
      by blast
    with e l show ?thesis
      by (simp add: requests_validated_def new_requests_def)
  qed
qed

lemma upload_file_requests:
  "new_requests s (snd (upload_file token_endpoint rem now fc filename mt folder s)) = [] \<or>
   seek_attr fc = Seekable \<and>
   (\<exists>c. new_requests s (snd (upload_file token_endpoint rem now fc filename mt folder s)) =
          [(c, FilesCreate
                 \<lparr>name = filename, mimeType = None,
                  parents = (if truthy folder then map_option (\<lambda>f. [f]) folder else None)\<rparr>
                 (Some \<lparr>fd = fc\<lparr>pos := length (content fc),
                                calls := calls fc @ [SeekSet 0, SeekEnd, Tell]\<rparr>,
                        mimetype = (case mt of None \<Rightarrow> ''application/pdf'' | Some m \<Rightarrow> m),
                        resumable = True, media_size = length (content fc)\<rparr>)
                 ''id, name, webViewLink'')])"
proof -
  obtain res s1 where g: "get_service now s = (res, s1)"
    by (cases "get_service now s")
  then have l: "net_log s1 = net_log s"
    by (rule get_service_net_log)
  show ?thesis
  proof (cases "seek_attr fc = Seekable")
    case False
    from upload_file_not_seekable [OF False] g l show ?thesis
      by (simp add: new_requests_def)
  next
    case True
    show ?thesis
    proof (cases res)
      case (Raises e)
      with g l show ?thesis
        by (simp add: upload_file_def new_requests_def)
    next
      case (Returns svc)
      with g have g': "get_service now s = (Returns svc, s1)"
        by simp
      let ?req = "FilesCreate
                    \<lparr>name = filename, mimeType = None,
                     parents = (if truthy folder then map_option (\<lambda>f. [f]) folder else None)\<rparr>
                    (Some \<lparr>fd = fc\<lparr>pos := length (content fc),
                                   calls := calls fc @ [SeekSet 0, SeekEnd, Tell]\<rparr>,
                           mimetype = (case mt of None \<Rightarrow> ''application/pdf'' | Some m \<Rightarrow> m),
                           resumable = True, media_size = length (content fc)\<rparr>)
                    ''id, name, webViewLink''"
      have st: "snd (upload_file token_endpoint rem now fc filename mt folder s) =
                snd (authorized_send token_endpoint now svc ?req s1)"
        by (rule upload_file_seekable_state [OF True g'])
      from authorized_send_log [of token_endpoint now svc ?req s1] show ?thesis
      proof
        assume "net_log (snd (authorized_send token_endpoint now svc ?req s1)) = net_log s1"
        with st l show ?thesis
          by (simp add: new_requests_def)
      next
        assume "\<exists>c. net_log (snd (authorized_send token_endpoint now svc ?req s1)) =
                     net_log s1 @ [(c, ?req)]"
        then obtain c where
          "net_log (snd (authorized_send token_endpoint now svc ?req s1)) =
             net_log s1 @ [(c, ?req)]"
          by blast
        with st l True show ?thesis
          by (simp add: new_requests_def)
      qed
    qed
  qed
qed

section \<open>Requests and the credential they carry (C1)\<close>

text \<open>
  C1. Let the token endpoint answer a refresh only with credentials that are not
  expired when issued. Then in every state, whatever handle is cached and whatever
  became of the credential it was built with, every request that \<open>upload_file\<close>,
  \<open>create_folder\<close> or \<open>list_files\<close> sends goes out with a credential that has an access
  token and is not expired at that time: \<open>get_service\<close> checks the credential when it
  builds the handle, and the transport of a cached handle refreshes a credential that
  is not valid before it sends, or sends nothing. With no handle cached and no valid
  credential, the operation changes nothing and returns its failure value. Through a
  cached handle, \<open>create_folder\<close> and \<open>list_files\<close> send their request with the handle's
  credential if it is valid, with the renewed one if the refresh succeeds, and not at
  all if the refresh fails.
\<close>

theorem operations_send_validated_credentials:
  assumes "\<forall>c tok exp rt. token_endpoint c = Refreshed tok exp rt \<longrightarrow> \<not> expiry_passed exp now"
  shows "requests_validated now s
           (snd (upload_file token_endpoint rem now fc filename mt folder s)) \<and>
         requests_validated now s
           (snd (create_folder token_endpoint rem now folder_name parent s)) \<and>
         requests_validated now s
           (snd (list_files token_endpoint rem now page_size folder s)) \<and>
         (service s = None \<and> \<not> is_authenticated now s \<longrightarrow>
            upload_file token_endpoint rem now fc filename mt folder s =
              (Returns (UploadFailure ''Not authenticated. Please authenticate first.''), s) \<and>
            create_folder token_endpoint rem now folder_name parent s = (Returns None, s) \<and>
            list_files token_endpoint rem now page_size folder s = (Returns [], s)) \<and>
         (\<forall>svc. service s = Some svc \<longrightarrow>
            map fst (new_requests s
                       (snd (create_folder token_endpoint rem now folder_name parent s))) =
              sent_with token_endpoint now (heap s (svc_creds svc)) \<and>
            map fst (new_requests s
                       (snd (list_files token_endpoint rem now page_size folder s))) =
              sent_with token_endpoint now (heap s (svc_creds svc)))"
proof -
  obtain res s1 where g: "get_service now s = (res, s1)"
    by (cases "get_service now s")
  have "requests_validated now s
          (snd (upload_file token_endpoint rem now fc filename mt folder s))"
    by (rule requests_validated_from_state [OF assms g upload_file_state [OF g]])
  moreover have "requests_validated now s
          (snd (create_folder token_endpoint rem now folder_name parent s))"
    by (rule requests_validated_from_state [OF assms g create_folder_state [OF g]])
  moreover have "requests_validated now s
          (snd (list_files token_endpoint rem now page_size folder s))"
    by (rule requests_validated_from_state [OF assms g list_files_state [OF g]])
  moreover have "service s = None \<and> \<not> is_authenticated now s \<longrightarrow>
            upload_file token_endpoint rem now fc filename mt folder s =
              (Returns (UploadFailure ''Not authenticated. Please authenticate first.''), s) \<and>
            create_folder token_endpoint rem now folder_name parent s = (Returns None, s) \<and>
            list_files token_endpoint rem now page_size folder s = (Returns [], s)"
    by (simp add: upload_file_def create_folder_def list_files_def
        get_service_unauthenticated not_authenticated_def)
  moreover have "\<forall>svc. service s = Some svc \<longrightarrow>
            map fst (new_requests s
                       (snd (create_folder token_endpoint rem now folder_name parent s))) =
              sent_with token_endpoint now (heap s (svc_creds svc)) \<and>
            map fst (new_requests s
                       (snd (list_files token_endpoint rem now page_size folder s))) =
              sent_with token_endpoint now (heap s (svc_creds svc))"
    by (simp add: create_folder_sent list_files_sent get_service_cached)
  ultimately show ?thesis
    by blast
qed

text \<open>
  The manager authenticates, uploads at time 10 (which builds the handle) and uploads
  again at time 5000, after the credential has expired. With the endpoint answering,
  the one request goes out with the renewed credential; with the endpoint down, the
  upload fails and nothing is sent.
\<close>

theorem operations_send_validated_credentials_witness:
  "ex_endpoint_renews ex_creds = Refreshed ''ya29.b1'' (Some 8600) None \<and>
   \<not> expiry_passed (Some 8600) 5000 \<and>
   \<not> is_authenticated 5000 ex_with_handle \<and>
   map fst (new_requests ex_with_handle
     (snd (upload_file ex_endpoint_renews ex_remote 5000 ex_stream ''report.pdf'' None None
             ex_with_handle))) =
     [ex_creds\<lparr>token := Some ''ya29.b1'', expiry := Some 8600\<rparr>] \<and>
   requests_validated 5000 ex_with_handle
     (snd (upload_file ex_endpoint_renews ex_remote 5000 ex_stream ''report.pdf'' None None
             ex_with_handle)) \<and>
   upload_file ex_endpoint_down ex_remote 5000 ex_stream ''report.pdf'' None None
     ex_with_handle = (Returns (UploadFailure ''timed out''), ex_with_handle)"
proof -
  have h: "\<forall>c tok exp rt. ex_endpoint_renews c = Refreshed tok exp rt \<longrightarrow>
             \<not> expiry_passed exp 5000"
    by (simp add: ex_endpoint_renews_def expiry_passed_def REFRESH_THRESHOLD_def)
  have a: "ex_endpoint_renews ex_creds = Refreshed ''ya29.b1'' (Some 8600) None"
    and b: "\<not> expiry_passed (Some 8600) 5000"
    by (simp_all add: ex_endpoint_renews_def expiry_passed_def REFRESH_THRESHOLD_def)
  have c: "\<not> is_authenticated 5000 ex_with_handle"
    by (simp add: ex_defs op_defs)
  have d: "map fst (new_requests ex_with_handle
     (snd (upload_file ex_endpoint_renews ex_remote 5000 ex_stream ''report.pdf'' None None
             ex_with_handle))) =
     [ex_creds\<lparr>token := Some ''ya29.b1'', expiry := Some 8600\<rparr>]"
    by (simp add: ex_defs op_defs)
  have e: "upload_file ex_endpoint_down ex_remote 5000 ex_stream ''report.pdf'' None None
     ex_with_handle = (Returns (UploadFailure ''timed out''), ex_with_handle)"
    by (simp add: ex_defs op_defs)
  show ?thesis
    using operations_send_validated_credentials
            [OF h, where s = ex_with_handle and rem = ex_remote and fc = ex_stream
               and filename = "''report.pdf''" and mt = None and folder = None]
      a b c d e
    by simp
qed

section \<open>Loading the token file (C2, C3)\<close>

text \<open>
  C2, as the code has it. On a missing token file \<open>load_credentials\<close> never raises.
  With no credential in memory it returns \<open>False\<close> and changes nothing. With a
  credential in memory that is not due for a refresh it returns whether that credential
  is valid and changes nothing; with one that is due (expired, with a refresh token) it
  refreshes it: on success it saves the renewed credential and returns whether it is
  valid, on failure it drops \<^verbatim>\<open>self.creds\<close> and returns \<open>False\<close>. On a token file that
  cannot be unpickled, the exception of \<^verbatim>\<open>pickle.load\<close> reaches the caller, the state
  unchanged.
\<close>

theorem load_credentials_missing_or_unparsable:
  "(files s (token_path s) = None \<longrightarrow>
      (\<exists>b s'. load_credentials token_endpoint now s = (Returns b, s')) \<and>
      load_credentials token_endpoint now s =
        (case creds s of
           None \<Rightarrow> (Returns False, s)
         | Some r \<Rightarrow>
             if expired (heap s r) now \<and> truthy (refresh_token (heap s r))
             then (case refresh (token_endpoint (heap s r)) (heap s r) of
                     Returns c' \<Rightarrow>
                       (Returns (valid c' now),
                        save_credentials (s\<lparr>heap := (heap s)(r := c')\<rparr>))
                   | Raises e \<Rightarrow> (Returns False, s\<lparr>creds := None\<rparr>))
             else (Returns (valid (heap s r) now), s))) \<and>
   (\<forall>f e. files s (token_path s) = Some f \<and> pickle_load f = Raises e \<longrightarrow>
      load_credentials token_endpoint now s = (Raises e, s))"
  by (auto simp: load_credentials_def load_credentials_read_def load_credentials_refresh_def
      is_authenticated_def Let_def save_credentials_def open_wb_def pickle_dump_def
      split: option.splits outcome.splits)

theorem load_credentials_missing_or_unparsable_witness:
  "files ex_fresh (token_path ex_fresh) = None \<and> creds ex_fresh = None \<and>
   load_credentials ex_endpoint_down 10 ex_fresh = (Returns False, ex_fresh) \<and>
   files ex_record_deleted (token_path ex_record_deleted) = None \<and>
   current_creds ex_record_deleted = Some ex_creds \<and> valid ex_creds 10 \<and>
   load_credentials ex_endpoint_down 10 ex_record_deleted = (Returns True, ex_record_deleted) \<and>
   files ex_corrupt (token_path ex_corrupt) = Some (Unparsable []) \<and>
   pickle_load (Unparsable []) = Raises (EOFError ''Ran out of input'') \<and>
   load_credentials ex_endpoint_down 10 ex_corrupt =
     (Raises (EOFError ''Ran out of input''), ex_corrupt)"
proof -
  have a: "files ex_fresh (token_path ex_fresh) = None" and b: "creds ex_fresh = None"
    and c: "files ex_corrupt (token_path ex_corrupt) = Some (Unparsable [])"
    by (simp_all add: ex_defs)
  have d: "pickle_load (Unparsable []) = Raises (EOFError ''Ran out of input'')"
    by simp
  have e: "files ex_record_deleted (token_path ex_record_deleted) = None"
    and f: "creds ex_record_deleted = Some 0" and g: "heap ex_record_deleted 0 = ex_creds"
    by (simp_all add: ex_defs op_defs)
  have h: "valid ex_creds 10" and i: "\<not> expired ex_creds 10"
    by (simp_all add: ex_creds_def valid_def expired_def expiry_passed_def REFRESH_THRESHOLD_def)
  show ?thesis
    using load_credentials_missing_or_unparsable [of ex_fresh ex_endpoint_down 10]
      load_credentials_missing_or_unparsable [of ex_record_deleted ex_endpoint_down 10]
      load_credentials_missing_or_unparsable [of ex_corrupt ex_endpoint_down 10]
      a b c d e f g h i
    by (simp add: current_creds_def)
qed

text \<open>
  C2 as stated fails on a corrupt record: with an empty token file the call raises
  \<^verbatim>\<open>EOFError\<close>. And on a missing record it answers for the credential in memory: the
  authenticated manager whose token file was deleted still returns \<open>True\<close>.
\<close>

theorem load_credentials_raises_on_corrupt_record:
  "load_credentials ex_endpoint_down 10 ex_corrupt =
     (Raises (EOFError ''Ran out of input''), ex_corrupt) \<and>
   files ex_record_deleted (token_path ex_record_deleted) = None \<and>
   fst (load_credentials ex_endpoint_down 10 ex_record_deleted) = Returns True"
  by (simp add: ex_defs op_defs)

text \<open>
  C3, as the code has it. Let the credential that \<open>load_credentials\<close> finds, in the
  token file or, when there is no token file, in memory, be expired and have a refresh
  token. When the refresh fails, with a network failure or with a rejection alike, the
  call returns \<open>False\<close> without raising: the files are unchanged, the credential object
  keeps its value, and \<^verbatim>\<open>self.creds\<close> is dropped.
\<close>

theorem refresh_failure_drops_credential:
  assumes "files s (token_path s) = Some (Pickle (Some c)) \<or>
           files s (token_path s) = None \<and> current_creds s = Some c"
    and "expired c now" and "truthy (refresh_token c)"
    and "token_endpoint c = NetworkFailure m \<or> token_endpoint c = Rejected m"
  shows "load_credentials token_endpoint now s =
           (Returns False,
            (if files s (token_path s) = None then s
             else s\<lparr>heap := (heap s)(next_ref s := c), next_ref := Suc (next_ref s)\<rparr>)
            \<lparr>creds := None\<rparr>)"
proof -
  from assms(3) obtain rt where "refresh_token c = Some rt"
    by (cases "refresh_token c") simp_all
  with assms(4) obtain e where e: "refresh (token_endpoint c) c = Raises e"
    by (auto simp: refresh_def)
  from assms(1) show ?thesis
  proof
    assume f: "files s (token_path s) = Some (Pickle (Some c))"
    let ?s1 = "s\<lparr>heap := (heap s)(next_ref s := c), next_ref := Suc (next_ref s),
                 creds := Some (next_ref s)\<rparr>"
    have rd: "load_credentials_read s = Returns ?s1"
      using f by (simp add: load_credentials_read_def alloc_def)
    from e assms(2,3)
    have "load_credentials_refresh token_endpoint now ?s1 = ?s1\<lparr>creds := None\<rparr>"
      by (intro load_credentials_refresh_failure [where r = "next_ref s" and e = e]) simp_all
    with rd f show ?thesis
      by (simp add: load_credentials_def is_authenticated_def)
  next
    assume f: "files s (token_path s) = None \<and> current_creds s = Some c"
    then obtain r where r: "creds s = Some r" "heap s r = c"
      by (auto simp: current_creds_def)
    have rd: "load_credentials_read s = Returns s"
      using f by (simp add: load_credentials_read_def)
    from e assms(2,3) r
    have "load_credentials_refresh token_endpoint now s = s\<lparr>creds := None\<rparr>"
      by (intro load_credentials_refresh_failure [where r = r and e = e]) simp_all
    with rd f show ?thesis
      by (simp add: load_credentials_def is_authenticated_def)
  qed
qed

theorem refresh_failure_drops_credential_witness:
  "files ex_authenticated (token_path ex_authenticated) = Some (Pickle (Some ex_creds)) \<and>
   expired ex_creds 5000 \<and> truthy (refresh_token ex_creds) \<and>
   ex_endpoint_down ex_creds = NetworkFailure ''timed out'' \<and>
   fst (load_credentials ex_endpoint_down 5000 ex_authenticated) = Returns False \<and>
   creds (snd (load_credentials ex_endpoint_down 5000 ex_authenticated)) = None \<and>
   files (snd (load_credentials ex_endpoint_down 5000 ex_authenticated)) = files ex_authenticated"
proof -
  have a: "files ex_authenticated (token_path ex_authenticated) = Some (Pickle (Some ex_creds))"
    by (simp add: ex_defs op_defs)
  have b: "expired ex_creds 5000" and c: "truthy (refresh_token ex_creds)"
    by (simp_all add: ex_creds_def expired_def expiry_passed_def REFRESH_THRESHOLD_def)
  have d: "ex_endpoint_down ex_creds = NetworkFailure ''timed out'' \<or>
           ex_endpoint_down ex_creds = Rejected ''timed out''"
    by (simp add: ex_endpoint_down_def)
  show ?thesis
    using refresh_failure_drops_credential
            [where token_endpoint = ex_endpoint_down, OF disjI1, OF a b c d]
      a b c
    by (simp add: ex_endpoint_down_def)
qed

text \<open>
  C3 as stated fails: at time 5000 the authenticated manager reloads its expired
  credential. With the endpoint unreachable the call returns \<open>False\<close>, it does not
  raise, and the credential held in memory before is gone after; with the endpoint
  rejecting the grant, result and state are the same.
\<close>

theorem refresh_failures_not_distinguished:
  "load_credentials ex_endpoint_down 5000 ex_authenticated =
     load_credentials ex_endpoint_rejects 5000 ex_authenticated \<and>
   fst (load_credentials ex_endpoint_down 5000 ex_authenticated) = Returns False \<and>
   current_creds ex_authenticated = Some ex_creds \<and>
   current_creds (snd (load_credentials ex_endpoint_down 5000 ex_authenticated)) = None"
  by (simp add: ex_defs op_defs current_creds_def)

section \<open>Exchanging the authorization code (C4)\<close>

text \<open>
  C4, as the code has it. When reading the client-secret descriptor or the exchange
  with the token endpoint raises, \<open>authenticate_from_code\<close> returns \<open>False\<close> and leaves
  the whole state, the token file and \<^verbatim>\<open>self.creds\<close> included, as it was.
\<close>

theorem authenticate_from_code_failure_returns_False:
  assumes "from_client_secrets_file (credentials_path s) s = Raises e \<or>
           fetch_token code redirect_uri oauth_state = Raises e"
  shows "authenticate_from_code fetch_token code redirect_uri oauth_state s = (Returns False, s)"
  using assms by (auto simp: authenticate_from_code_def split: outcome.splits)

theorem authenticate_from_code_failure_returns_False_witness:
  "ex_fetch_token [] ''https://app/callback'' None = Raises (TransportError ''connection reset'') \<and>
   authenticate_from_code ex_fetch_token [] ''https://app/callback'' None ex_authenticated =
     (Returns False, ex_authenticated) \<and>
   files ex_authenticated ''token.pickle'' = Some (Pickle (Some ex_creds))"
proof -
  have a: "ex_fetch_token [] ''https://app/callback'' None =
             Raises (TransportError ''connection reset'')"
    by (simp add: ex_fetch_token_def)
  have b: "files ex_authenticated ''token.pickle'' = Some (Pickle (Some ex_creds))"
    by (simp add: ex_defs op_defs)
  show ?thesis
    using authenticate_from_code_failure_returns_False
            [of ex_authenticated _ ex_fetch_token, OF disjI2, OF a] a b
    by simp
qed

text \<open>
  C4 as stated fails: on a transport error, and on a rejected code, the call returns
  \<open>False\<close>; it raises nothing, and the two causes cannot be told apart in the result.
\<close>

theorem authenticate_from_code_does_not_raise:
  "ex_fetch_token [] ''https://app/callback'' None =
     Raises (TransportError ''connection reset'') \<and>
   authenticate_from_code ex_fetch_token [] ''https://app/callback'' None ex_fresh =
     (Returns False, ex_fresh) \<and>
   ex_fetch_token ''used'' ''https://app/callback'' None =
     Raises (InvalidGrantError ''invalid_grant'') \<and>
   authenticate_from_code ex_fetch_token ''used'' ''https://app/callback'' None ex_fresh =
     (Returns False, ex_fresh)"
  by (simp add: ex_defs op_defs)

section \<open>The default type of an upload (C5)\<close>

text \<open>
  C5, as the code has it. An upload whose caller states no mimetype is the upload with
  the mimetype \<^verbatim>\<open>application/pdf\<close>, and every request it sends carries that type.
\<close>

theorem upload_default_mimetype_is_pdf:
  "upload_file token_endpoint rem now fc filename None folder s =
     upload_file token_endpoint rem now fc filename (Some ''application/pdf'') folder s \<and>
   list_all (\<lambda>(c, req). upload_mimetype req = Some ''application/pdf'')
     (new_requests s (snd (upload_file token_endpoint rem now fc filename None folder s)))"
proof -
  have "list_all (\<lambda>(c, req). upload_mimetype req = Some ''application/pdf'')
          (new_requests s (snd (upload_file token_endpoint rem now fc filename None folder s)))"
    using upload_file_requests [of s token_endpoint rem now fc filename None folder]
    by (auto simp: upload_mimetype_def)
  then show ?thesis
    by (simp add: upload_file_def)
qed

theorem upload_default_mimetype_is_pdf_witness:
  "fst (upload_file ex_endpoint_down ex_remote 10 ex_stream ''report.pdf'' None None
          ex_authenticated) =
   fst (upload_file ex_endpoint_down ex_remote 10 ex_stream ''report.pdf''
          (Some ''application/pdf'') None ex_authenticated)"
  using upload_default_mimetype_is_pdf
          [of ex_endpoint_down ex_remote 10 ex_stream "''report.pdf''" None ex_authenticated]
  by simp

text \<open>
  C5 as stated fails: the request of an upload without a stated mimetype carries
  \<^verbatim>\<open>application/pdf\<close>, which is not the generic binary type.
\<close>

theorem upload_default_mimetype_not_generic_binary:
  "map (upload_mimetype \<circ> snd)
     (new_requests ex_authenticated
        (snd (upload_file ex_endpoint_down ex_remote 10 ex_stream ''report.pdf'' None None
                ex_authenticated))) =
     [Some ''application/pdf''] \<and>
   ''application/pdf'' \<noteq> generic_binary_mimetype"
  by (simp add: ex_defs op_defs upload_mimetype_def generic_binary_mimetype_def)

section \<open>Saving the token file (C6, C7)\<close>

text \<open>
  C6, as the code has it. \<open>save_credentials\<close> writes in place: a save that completes
  leaves the pickle of \<^verbatim>\<open>self.creds\<close> at the token path; a save cut short leaves
  there the bytes written so far, no complete pickle stream, and \<open>load_credentials\<close>
  does not accept them as a credential: it raises, the state unchanged.
\<close>

theorem save_credentials_writes_in_place:
  "files (save_credentials s) (token_path s) = Some (Pickle (current_creds s)) \<and>
   files (save_credentials_interrupted written s) (token_path s) = Some (Unparsable written) \<and>
   (\<exists>e. load_credentials token_endpoint now (save_credentials_interrupted written s) =
          (Raises e, save_credentials_interrupted written s))"
  by (simp add: save_credentials_def save_credentials_interrupted_def open_wb_def pickle_dump_def
      current_creds_def load_credentials_def load_credentials_read_def Let_def)

theorem save_credentials_writes_in_place_witness:
  "files (save_credentials ex_authenticated) ''token.pickle'' = Some (Pickle (Some ex_creds)) \<and>
   files (save_credentials_interrupted ''abc'' ex_authenticated) ''token.pickle'' =
     Some (Unparsable ''abc'')"
proof -
  have a: "token_path ex_authenticated = ''token.pickle''"
    and b: "current_creds ex_authenticated = Some ex_creds"
    by (simp_all add: ex_defs op_defs current_creds_def)
  show ?thesis
    using save_credentials_writes_in_place
            [of ex_authenticated "''abc''" ex_endpoint_down 10] a b
    by simp
qed

text \<open>
  C6 as stated fails: the save is not atomic. The authenticated manager's token file
  holds its credential; saving that same credential again, cut short right after the
  file is opened, leaves an empty file at the token path, neither the old record nor
  the new one, and the next \<open>load_credentials\<close> raises \<^verbatim>\<open>EOFError\<close>.
\<close>

theorem interrupted_save_destroys_record:
  "files ex_authenticated (token_path ex_authenticated) = Some (Pickle (Some ex_creds)) \<and>
   files (save_credentials ex_authenticated) (token_path ex_authenticated) =
     Some (Pickle (Some ex_creds)) \<and>
   files (save_credentials_interrupted [] ex_authenticated) (token_path ex_authenticated) =
     Some (Unparsable []) \<and>
   fst (load_credentials ex_endpoint_down 10 (save_credentials_interrupted [] ex_authenticated)) =
     Raises (EOFError ''Ran out of input'')"
  by (simp add: ex_defs op_defs)



text \<open>
  The whole of \<open>load_credentials\<close> after a save is that read step, returning whether
  \<open>c\<close> is valid, when \<open>c\<close> is not due for a refresh.
\<close>

lemma load_credentials_after_save:
  assumes "current_creds s = Some c"
    and "\<not> (expired c now \<and> truthy (refresh_token c))"
  shows "\<exists>s1. load_credentials_read (save_credentials s) = Returns s1 \<and>
           load_credentials token_endpoint now (save_credentials s) =
             (Returns (valid c now), s1)"
proof -
  let ?s0 = "save_credentials s"
  let ?s1 = "?s0\<lparr>heap := (heap ?s0)(next_ref ?s0 := c), next_ref := Suc (next_ref ?s0),
                creds := Some (next_ref ?s0)\<rparr>"
  have "files ?s0 (token_path ?s0) = Some (Pickle (Some c))"
    using assms(1) by (simp add: files_save_credentials token_path_save_credentials)
  then have rd: "load_credentials_read ?s0 = Returns ?s1"
    by (simp add: load_credentials_read_def alloc_def)
  with assms(2) have "load_credentials token_endpoint now ?s0 = (Returns (valid c now), ?s1)"
    by (auto simp: load_credentials_def load_credentials_refresh_def is_authenticated_def)
  with rd show ?thesis
    by blast
qed

section \<open>Revoking (C8)\<close>

text \<open>
  C8. \<open>revoke_authentication\<close> never raises. In the state it leaves, the token file is
  gone, \<^verbatim>\<open>self.creds\<close> and the cached handle are cleared, and a second revoke returns
  normally and changes nothing. From that state, whatever was held before,
  \<open>get_service\<close> raises the ``not authenticated'' error and \<open>load_credentials\<close> returns
  \<open>False\<close>, each leaving the state as it is, so that every further attempt fails alike.
\<close>

theorem revoke_authentication_idempotent_and_final:
  "fst (revoke_authentication s) = Returns () \<and>
   revoke_authentication (snd (revoke_authentication s)) =
     (Returns (), snd (revoke_authentication s)) \<and>
   files (snd (revoke_authentication s)) (token_path s) = None \<and>
   token_path (snd (revoke_authentication s)) = token_path s \<and>
   creds (snd (revoke_authentication s)) = None \<and>
   service (snd (revoke_authentication s)) = None \<and>
   get_service now (snd (revoke_authentication s)) =
     (Raises (ValueError ''Not authenticated. Please authenticate first.''),
      snd (revoke_authentication s)) \<and>
   load_credentials token_endpoint now (snd (revoke_authentication s)) =
     (Returns False, snd (revoke_authentication s)) \<and>
   \<not> is_authenticated now (snd (revoke_authentication s))"
  by (simp add: revoke_authentication_def os_remove_def get_service_def not_authenticated_def
      load_credentials_def load_credentials_read_def load_credentials_refresh_def
      is_authenticated_def Let_def split: option.splits)

text \<open>
  The manager with a valid credential, a token file and a cached handle, revoked at
  time 10.
\<close>

theorem revoke_authentication_idempotent_and_final_witness:
  "is_authenticated 10 ex_with_handle \<and>
   service ex_with_handle \<noteq> None \<and>
   files ex_with_handle ''token.pickle'' = Some (Pickle (Some ex_creds)) \<and>
   files (snd (revoke_authentication ex_with_handle)) ''token.pickle'' = None \<and>
   fst (get_service 10 (snd (revoke_authentication ex_with_handle))) =
     Raises (ValueError ''Not authenticated. Please authenticate first.'') \<and>
   fst (load_credentials ex_endpoint_down 10 (snd (revoke_authentication ex_with_handle))) =
     Returns False"
proof -
  have a: "is_authenticated 10 ex_with_handle" "service ex_with_handle \<noteq> None"
    "files ex_with_handle ''token.pickle'' = Some (Pickle (Some ex_creds))"
    "token_path ex_with_handle = ''token.pickle''"
    by (simp_all add: ex_defs op_defs)
  show ?thesis
    using revoke_authentication_idempotent_and_final [of ex_with_handle 10 ex_endpoint_down] a
    by simp
qed

section \<open>Rewinding the content of an upload (C9, C10)\<close>



text \<open>
  C10, as the code has it. When the content object has no \<^verbatim>\<open>seek\<close>, the rewind is
  skipped and does not fail; but no transfer follows: the media constructor needs
  \<^verbatim>\<open>seek\<close> and raises, so the upload sends no request, leaves the state as
  \<open>get_service\<close> left it and returns a failure result, with the message of that
  exception (or of the one \<open>get_service\<close> raised).
\<close>

theorem upload_without_seek_transfers_nothing:
  assumes "seek_attr fc = NoSeek"
  shows "rewind fc = Returns fc \<and>
         MediaIoBaseUpload fc mtype True =
           Raises (AttributeError ''object has no attribute seek'') \<and>
         new_requests s (snd (upload_file token_endpoint rem now fc filename mt folder s)) = [] \<and>
         upload_file token_endpoint rem now fc filename mt folder s =
           (Returns (UploadFailure
                       (case fst (get_service now s) of
                          Raises e \<Rightarrow> str e
                        | Returns svc \<Rightarrow> ''object has no attribute seek'')),
            snd (get_service now s))"
proof -
  obtain res s1 where g: "get_service now s = (res, s1)"
    by (cases "get_service now s")
  then have l: "net_log s1 = net_log s"
    by (rule get_service_net_log)
  have r: "rewind fc = Returns fc"
    using assms by (simp add: rewind_def)
  have m: "MediaIoBaseUpload fc mtype True =
             Raises (AttributeError ''object has no attribute seek'')" for mtype
    using assms by (simp add: MediaIoBaseUpload_def)
  have u: "upload_file token_endpoint rem now fc filename mt folder s =
           (Returns (UploadFailure
                       (case fst (get_service now s) of
                          Raises e \<Rightarrow> str e
                        | Returns svc \<Rightarrow> ''object has no attribute seek'')),
            snd (get_service now s))"
    using g r m by (cases res) (simp_all add: upload_file_def)
  with g l have "new_requests s
                   (snd (upload_file token_endpoint rem now fc filename mt folder s)) = []"
    by (simp add: new_requests_def)
  with r m u show ?thesis
    by blast
qed

theorem upload_without_seek_transfers_nothing_witness:
  "seek_attr ex_pipe = NoSeek \<and>
   new_requests ex_authenticated
     (snd (upload_file ex_endpoint_down ex_remote 10 ex_pipe ''report.pdf'' None None
             ex_authenticated)) = [] \<and>
   upload_file ex_endpoint_down ex_remote 10 ex_pipe ''report.pdf'' None None
     ex_authenticated =
     (Returns (UploadFailure ''object has no attribute seek''),
      ex_authenticated\<lparr>service := Some \<lparr>svc_creds = 0\<rparr>\<rparr>)"
proof -
  have a: "seek_attr ex_pipe = NoSeek"
    by (simp add: ex_pipe_def)
  from upload_without_seek_transfers_nothing
         [OF a, where s = ex_authenticated and token_endpoint = ex_endpoint_down
            and rem = ex_remote and now = 10 and filename = "''report.pdf''"
            and mt = None and folder = None and mtype = "''application/pdf''"]
  have n: "new_requests ex_authenticated
             (snd (upload_file ex_endpoint_down ex_remote 10 ex_pipe ''report.pdf'' None None
                     ex_authenticated)) = []"
    and u: "upload_file ex_endpoint_down ex_remote 10 ex_pipe ''report.pdf'' None None
              ex_authenticated =
            (Returns (UploadFailure
                        (case fst (get_service 10 ex_authenticated) of
                           Raises e \<Rightarrow> str e
                         | Returns svc \<Rightarrow> ''object has no attribute seek'')),
             snd (get_service 10 ex_authenticated))"
    by blast+
  from u have "upload_file ex_endpoint_down ex_remote 10 ex_pipe ''report.pdf'' None None
                 ex_authenticated =
               (Returns (UploadFailure ''object has no attribute seek''),
                ex_authenticated\<lparr>service := Some \<lparr>svc_creds = 0\<rparr>\<rparr>)"
    by (simp add: ex_authenticated_get_service)
  with a n show ?thesis
    by blast
qed

text \<open>
  C10 as stated fails: the authenticated manager, with a remote service that accepts
  every request, uploads a content object without \<^verbatim>\<open>seek\<close> at time 10. The upload
  returns a failure and sends nothing.
\<close>

theorem upload_without_seek_fails:
  "is_authenticated 10 ex_authenticated \<and>
   fst (upload_file ex_endpoint_down ex_remote 10 ex_pipe ''report.pdf'' None None
          ex_authenticated) =
     Returns (UploadFailure ''object has no attribute seek'') \<and>
   new_requests ex_authenticated
     (snd (upload_file ex_endpoint_down ex_remote 10 ex_pipe ''report.pdf'' None None
             ex_authenticated)) = []"
  by (simp add: ex_defs op_defs)

end
